theory Spec2Isabelle
  imports Complex_Main "HOL-Library.AList"
begin

section \<open>JavaScript values\<close>

text \<open>
  The gadget \<^verbatim>\<open>rcp.js\<close> shows the unpatrolled recent changes of a wiki in a sidebar
  portlet. This theory embeds its functions and proves properties of them.

  A JavaScript string is a sequence of UTF-16 code units; a code unit is modelled by its
  number. \<open>ascii\<close> writes a string literal of the source that is pure ASCII.
\<close>

type_synonym jschar = nat
type_synonym jsstring = "jschar list"

definition ascii :: "string \<Rightarrow> jsstring" where
  "ascii s = map of_char s"

text \<open>
  Numbers. The numbers the gadget computes with are page lengths, their differences, a
  polling period in seconds, the period times 1000 and millisecond clock readings. A finite
  number is modelled by its exact value: the rounding and the overflow of IEEE doubles are
  not modelled, and the two zeros are one.
\<close>

datatype jsnumber = Fin rat | NaN | PosInf | NegInf

text \<open>
  The values that preferences, the site configuration and the persisted settings hold are
  JSON values. An object is the list of its own properties; a property that an object does
  not have reads as \<open>undefined\<close>, which is \<open>None\<close> here. Prototype chains are not modelled.
\<close>

datatype json =
    JNull
  | JBool bool
  | JNum rat
  | JStr jsstring
  | JArr "json list"
  | JObj "(jsstring \<times> json) list"

type_synonym object = "(jsstring \<times> json) list"

definition get_prop :: "object \<Rightarrow> string \<Rightarrow> json option" where
  "get_prop obj k = map_of obj (ascii k)"

subsection \<open>Conversions\<close>

text \<open>\<open>ToBoolean\<close> (ECMA-262, 7.1.2) on JSON values.\<close>

fun ToBoolean :: "json \<Rightarrow> bool" where
  "ToBoolean JNull = False"
| "ToBoolean (JBool b) = b"
| "ToBoolean (JNum r) = (r \<noteq> 0)"
| "ToBoolean (JStr s) = (s \<noteq> [])"
| "ToBoolean (JArr xs) = True"
| "ToBoolean (JObj ms) = True"

definition truthy :: "json option \<Rightarrow> bool" where
  "truthy v = (case v of None \<Rightarrow> False | Some x \<Rightarrow> ToBoolean x)"

text \<open>
  \<open>StringToNumber\<close> (ECMA-262, 7.1.4.1.1): white space and line terminators are trimmed; the
  empty string is 0; a radix-prefixed integer, or an optionally signed decimal literal or
  \<open>Infinity\<close>, is its value; every other string is \<open>NaN\<close>.
\<close>

definition StrWhiteSpaceChar :: "jschar \<Rightarrow> bool" where
  "StrWhiteSpaceChar c =
     (c = 0x9 \<or> c = 0xA \<or> c = 0xB \<or> c = 0xC \<or> c = 0xD \<or> c = 0x20 \<or> c = 0xA0
      \<or> c = 0x1680 \<or> (0x2000 \<le> c \<and> c \<le> 0x200A) \<or> c = 0x2028 \<or> c = 0x2029
      \<or> c = 0x202F \<or> c = 0x205F \<or> c = 0x3000 \<or> c = 0xFEFF)"

definition trim :: "jsstring \<Rightarrow> jsstring" where
  "trim s = rev (dropWhile StrWhiteSpaceChar (rev (dropWhile StrWhiteSpaceChar s)))"

definition is_digit :: "jschar \<Rightarrow> bool" where
  "is_digit c = (0x30 \<le> c \<and> c \<le> 0x39)"

definition hex_val :: "jschar \<Rightarrow> nat option" where
  "hex_val c =
     (if 0x30 \<le> c \<and> c \<le> 0x39 then Some (c - 0x30)
      else if 0x41 \<le> c \<and> c \<le> 0x46 then Some (c - 0x41 + 10)
      else if 0x61 \<le> c \<and> c \<le> 0x66 then Some (c - 0x61 + 10)
      else None)"

definition digit_in :: "nat \<Rightarrow> jschar \<Rightarrow> bool" where
  "digit_in radix c = (case hex_val c of None \<Rightarrow> False | Some d \<Rightarrow> d < radix)"

definition radix_val :: "nat \<Rightarrow> jsstring \<Rightarrow> nat" where
  "radix_val radix s = foldl (\<lambda>a c. radix * a + (case hex_val c of None \<Rightarrow> 0 | Some d \<Rightarrow> d)) 0 s"

definition pow10 :: "int \<Rightarrow> rat" where
  "pow10 e = (if 0 \<le> e then 10 ^ nat e else 1 / 10 ^ nat (- e))"

definition radix_literal :: "nat \<Rightarrow> jsstring \<Rightarrow> jsnumber" where
  "radix_literal radix ds =
     (if ds \<noteq> [] \<and> list_all (digit_in radix) ds then Fin (of_nat (radix_val radix ds)) else NaN)"

text \<open>The exponent part: absent, or \<open>e\<close>/\<open>E\<close>, an optional sign and decimal digits.\<close>

definition exponent_part :: "jsstring \<Rightarrow> int option" where
  "exponent_part s =
     (case s of
        [] \<Rightarrow> Some 0
      | c # r \<Rightarrow>
          if c = 0x65 \<or> c = 0x45 then
            (let (neg, ds) = (case r of
                               [] \<Rightarrow> (False, [])
                             | x # r' \<Rightarrow> if x = 0x2B then (False, r')
                                         else if x = 0x2D then (True, r') else (False, r))
             in if ds \<noteq> [] \<and> list_all is_digit ds
                then Some ((if neg then - 1 else 1) * int (radix_val 10 ds))
                else None)
          else None)"

definition StrUnsignedDecimalLiteral :: "jsstring \<Rightarrow> jsnumber" where
  "StrUnsignedDecimalLiteral s =
     (if s = ascii ''Infinity'' then PosInf
      else
        let ip = takeWhile is_digit s;
            r1 = dropWhile is_digit s;
            dot = (r1 \<noteq> [] \<and> hd r1 = 0x2E);
            fp = (if dot then takeWhile is_digit (tl r1) else []);
            r2 = (if dot then dropWhile is_digit (tl r1) else r1)
        in if ip = [] \<and> fp = [] then NaN
           else (case exponent_part r2 of
                   None \<Rightarrow> NaN
                 | Some e \<Rightarrow> Fin (of_nat (radix_val 10 (ip @ fp)) * pow10 (e - int (length fp)))))"

fun negate :: "jsnumber \<Rightarrow> jsnumber" where
  "negate (Fin r) = Fin (- r)"
| "negate NaN = NaN"
| "negate PosInf = NegInf"
| "negate NegInf = PosInf"

definition StringToNumber :: "jsstring \<Rightarrow> jsnumber" where
  "StringToNumber str =
     (case trim str of
        [] \<Rightarrow> Fin 0
      | c # r \<Rightarrow>
          if c = 0x30 \<and> r \<noteq> [] \<and> (hd r = 0x78 \<or> hd r = 0x58) then radix_literal 16 (tl r)
          else if c = 0x30 \<and> r \<noteq> [] \<and> (hd r = 0x6F \<or> hd r = 0x4F) then radix_literal 8 (tl r)
          else if c = 0x30 \<and> r \<noteq> [] \<and> (hd r = 0x62 \<or> hd r = 0x42) then radix_literal 2 (tl r)
          else if c = 0x2B then StrUnsignedDecimalLiteral r
          else if c = 0x2D then negate (StrUnsignedDecimalLiteral r)
          else StrUnsignedDecimalLiteral (c # r))"

text \<open>
  \<open>ToNumber\<close> (ECMA-262, 7.1.4) on JSON values. An array is first converted to the string
  that joins its elements with commas: the empty array gives the empty string, an array of
  one element the string of that element (empty for \<open>null\<close>), and a longer one a string
  with a comma in it, which is no numeric literal. A plain object gives
  \<open>[object Object]\<close>.
\<close>

fun ToNumber :: "json \<Rightarrow> jsnumber" where
  "ToNumber JNull = Fin 0"
| "ToNumber (JBool b) = Fin (if b then 1 else 0)"
| "ToNumber (JNum r) = Fin r"
| "ToNumber (JStr s) = StringToNumber s"
| "ToNumber (JArr []) = Fin 0"
| "ToNumber (JArr [JNull]) = Fin 0"
| "ToNumber (JArr [JBool b]) = NaN"
| "ToNumber (JArr [JNum r]) = Fin r"
| "ToNumber (JArr [JStr s]) = StringToNumber s"
| "ToNumber (JArr [JArr ys]) = ToNumber (JArr ys)"
| "ToNumber (JArr [JObj ms]) = NaN"
| "ToNumber (JArr (x # y # zs)) = NaN"
| "ToNumber (JObj ms) = NaN"

definition to_number :: "json option \<Rightarrow> jsnumber" where
  "to_number v = (case v of None \<Rightarrow> NaN | Some x \<Rightarrow> ToNumber x)"

subsection \<open>Arithmetic and comparison\<close>

fun js_mul :: "jsnumber \<Rightarrow> jsnumber \<Rightarrow> jsnumber" where
  "js_mul (Fin a) (Fin b) = Fin (a * b)"
| "js_mul NaN _ = NaN"
| "js_mul _ NaN = NaN"
| "js_mul PosInf (Fin b) = (if b = 0 then NaN else if 0 < b then PosInf else NegInf)"
| "js_mul NegInf (Fin b) = (if b = 0 then NaN else if 0 < b then NegInf else PosInf)"
| "js_mul (Fin a) PosInf = (if a = 0 then NaN else if 0 < a then PosInf else NegInf)"
| "js_mul (Fin a) NegInf = (if a = 0 then NaN else if 0 < a then NegInf else PosInf)"
| "js_mul PosInf PosInf = PosInf"
| "js_mul PosInf NegInf = NegInf"
| "js_mul NegInf PosInf = NegInf"
| "js_mul NegInf NegInf = PosInf"

text \<open>\<open>a < b\<close> on numbers; a comparison with \<open>NaN\<close> is undefined, which every relational
  operator turns into \<open>false\<close>.\<close>

fun js_lt :: "jsnumber \<Rightarrow> jsnumber \<Rightarrow> bool option" where
  "js_lt NaN _ = None"
| "js_lt _ NaN = None"
| "js_lt (Fin a) (Fin b) = Some (a < b)"
| "js_lt (Fin a) PosInf = Some True"
| "js_lt (Fin a) NegInf = Some False"
| "js_lt PosInf _ = Some False"
| "js_lt NegInf NegInf = Some False"
| "js_lt NegInf _ = Some True"

definition js_gt :: "jsnumber \<Rightarrow> jsnumber \<Rightarrow> bool" where
  "js_gt a b = (js_lt b a = Some True)"

definition js_ge :: "jsnumber \<Rightarrow> jsnumber \<Rightarrow> bool" where
  "js_ge a b = (js_lt a b = Some False)"

definition js_le :: "jsnumber \<Rightarrow> jsnumber \<Rightarrow> bool" where
  "js_le a b = (js_lt b a = Some False)"

fun Math_abs :: "jsnumber \<Rightarrow> jsnumber" where
  "Math_abs (Fin r) = Fin \<bar>r\<bar>"
| "Math_abs NaN = NaN"
| "Math_abs PosInf = PosInf"
| "Math_abs NegInf = PosInf"

text \<open>
  \<open>Number.prototype.toString\<close> on an integer: its decimal digits, after \<open>-\<close> when it is
  negative. (From \<open>10\<^sup>2\<^sup>1\<close> on JavaScript writes the same number with an exponent; page
  lengths are far below.)
\<close>

fun digits :: "nat \<Rightarrow> jsstring" where
  "digits n = (if n < 10 then [0x30 + n] else digits (n div 10) @ [0x30 + n mod 10])"

declare digits.simps [simp del]

definition toString :: "int \<Rightarrow> jsstring" where
  "toString i = (if i < 0 then 0x2D # digits (nat (- i)) else digits (nat i))"

section \<open>\<open>JSON.parse\<close>\<close>

text \<open>
  \<open>JSON.parse\<close> (ECMA-262, 25.5.1; the grammar of ECMA-404) throws a \<open>SyntaxError\<close> on a
  text that is not JSON. The text is split into tokens, and the tokens are read by a
  pushdown automaton whose stack holds the arrays and objects that are still open.
\<close>

datatype error = SyntaxError | TypeError

datatype token =
    TLBrace | TRBrace | TLBrack | TRBrack | TColon | TComma
  | TStr jsstring | TNum rat | TTrue | TFalse | TNull

definition unescape :: "jschar \<Rightarrow> jschar option" where
  "unescape e =
     (if e = 0x22 then Some 0x22
      else if e = 0x5C then Some 0x5C
      else if e = 0x2F then Some 0x2F
      else if e = 0x62 then Some 0x8
      else if e = 0x66 then Some 0xC
      else if e = 0x6E then Some 0xA
      else if e = 0x72 then Some 0xD
      else if e = 0x74 then Some 0x9
      else None)"

text \<open>The characters of a string after its opening quote, up to the closing quote.\<close>

fun lex_string :: "jsstring \<Rightarrow> jsstring \<Rightarrow> (jsstring \<times> jsstring) option" where
  "lex_string acc [] = None"
| "lex_string acc (c # cs) =
     (if c = 0x22 then Some (rev acc, cs)
      else if c = 0x5C then
        (case cs of
           [] \<Rightarrow> None
         | e # r \<Rightarrow>
             if e = 0x75 then
               (case r of
                  h1 # h2 # h3 # h4 # r' \<Rightarrow>
                    (case (hex_val h1, hex_val h2, hex_val h3, hex_val h4) of
                       (Some d1, Some d2, Some d3, Some d4) \<Rightarrow>
                         lex_string ((((d1 * 16 + d2) * 16 + d3) * 16 + d4) # acc) r'
                     | _ \<Rightarrow> None)
                | _ \<Rightarrow> None)
             else (case unescape e of None \<Rightarrow> None | Some x \<Rightarrow> lex_string (x # acc) r))
      else if c < 0x20 then None
      else lex_string (c # acc) cs)"

text \<open>A number: \<open>-\<close>? (\<open>0\<close> | digit 1-9, digits) (\<open>.\<close> digits)? ((\<open>e\<close>|\<open>E\<close>) (\<open>+\<close>|\<open>-\<close>)? digits)?,
  and the text after it. Each part gives what it read and the text that follows.\<close>

definition int_part :: "jsstring \<Rightarrow> jsstring \<times> jsstring" where
  "int_part s =
     (if s \<noteq> [] \<and> hd s = 0x30 then ([0x30], tl s)
      else (takeWhile is_digit s, dropWhile is_digit s))"

definition frac_part :: "jsstring \<Rightarrow> (jsstring \<times> jsstring) option" where
  "frac_part s =
     (if s \<noteq> [] \<and> hd s = 0x2E then
        (if takeWhile is_digit (tl s) = [] then None
         else Some (takeWhile is_digit (tl s), dropWhile is_digit (tl s)))
      else Some ([], s))"

definition exp_part :: "jsstring \<Rightarrow> (int \<times> jsstring) option" where
  "exp_part s =
     (if s \<noteq> [] \<and> (hd s = 0x65 \<or> hd s = 0x45) then
        (let r = tl s;
             neg = (r \<noteq> [] \<and> hd r = 0x2D);
             ds = (if r \<noteq> [] \<and> (hd r = 0x2B \<or> hd r = 0x2D) then tl r else r)
         in if takeWhile is_digit ds = [] then None
            else Some ((if neg then - 1 else 1) * int (radix_val 10 (takeWhile is_digit ds)),
                       dropWhile is_digit ds))
      else Some (0, s))"

definition lex_number :: "jsstring \<Rightarrow> (rat \<times> jsstring) option" where
  "lex_number s =
     (let neg = (s \<noteq> [] \<and> hd s = 0x2D);
          (ip, r1) = int_part (if neg then tl s else s)
      in if ip = [] then None
         else (case frac_part r1 of
                 None \<Rightarrow> None
               | Some (fp, r2) \<Rightarrow>
                   (case exp_part r2 of
                      None \<Rightarrow> None
                    | Some (e, r3) \<Rightarrow>
                        Some ((if neg then - 1 else 1) * of_nat (radix_val 10 (ip @ fp))
                                * pow10 (e - int (length fp)),
                              r3))))"

lemma lex_string_shorter: "lex_string acc cs = Some (s, r) \<Longrightarrow> length r < length cs"
proof (induction acc cs rule: lex_string.induct)
  case (1 acc)
  then show ?case by simp
next
  case (2 acc c cs)
  show ?case
  proof (cases "c = 0x22")
    case True
    with 2(4) show ?thesis by simp
  next
    case q: False
    show ?thesis
    proof (cases "c = 0x5C")
      case False
      with q 2(4) have "\<not> c < 0x20" and "lex_string (c # acc) cs = Some (s, r)"
        by (auto split: if_splits)
      with 2(3) q False show ?thesis by fastforce
    next
      case b: True
      show ?thesis
      proof (cases cs)
        case Nil
        with b q 2(4) show ?thesis by simp
      next
        case (Cons e r0)
        show ?thesis
        proof (cases "e = 0x75")
          case False
          with b q Cons 2(4) obtain x where "unescape e = Some x" "lex_string (x # acc) r0 = Some (s, r)"
            by (auto split: option.splits)
          with 2(2) [OF q b Cons False] Cons show ?thesis by fastforce
        next
          case u: True
          from b q Cons u 2(4) obtain h1 h2 h3 h4 r' d1 d2 d3 d4 where
            r0: "r0 = h1 # h2 # h3 # h4 # r'" and
            h: "hex_val h1 = Some d1" "hex_val h2 = Some d2" "hex_val h3 = Some d3" "hex_val h4 = Some d4"
            and l: "lex_string ((((d1 * 16 + d2) * 16 + d3) * 16 + d4) # acc) r' = Some (s, r)"
            by (simp split: list.splits option.splits)
          have "length r < length r'"
            by (rule 2(1) [OF q b Cons u]) (use r0 h l in auto)
          with r0 Cons show ?thesis by simp
        qed
      qed
    qed
  qed
qed

lemma int_part_shorter: "int_part s = (ip, r) \<Longrightarrow> ip \<noteq> [] \<Longrightarrow> length r < length s"
proof -
  assume a: "int_part s = (ip, r)" and ne: "ip \<noteq> []"
  show ?thesis
  proof (cases "s \<noteq> [] \<and> hd s = 0x30")
    case True
    with a show ?thesis by (cases s) (auto simp: int_part_def)
  next
    case False
    with a have ip: "ip = takeWhile is_digit s" and r: "r = dropWhile is_digit s"
      by (auto simp: int_part_def)
    have "length ip + length r = length s"
      unfolding ip r by (metis length_append takeWhile_dropWhile_id)
    with ne show ?thesis by (cases ip) auto
  qed
qed

lemma frac_part_shorter: "frac_part s = Some (fp, r) \<Longrightarrow> length r \<le> length s"
  using length_dropWhile_le [of is_digit "tl s"]
  by (auto simp: frac_part_def split: if_splits)

lemma exp_part_shorter: "exp_part s = Some (e, r) \<Longrightarrow> length r \<le> length s"
proof -
  assume a: "exp_part s = Some (e, r)"
  show ?thesis
  proof (cases "s \<noteq> [] \<and> (hd s = 0x65 \<or> hd s = 0x45)")
    case False
    with a show ?thesis by (auto simp: exp_part_def)
  next
    case True
    define ds where "ds = (if tl s \<noteq> [] \<and> (hd (tl s) = 0x2B \<or> hd (tl s) = 0x2D) then tl (tl s) else tl s)"
    from a True have "r = dropWhile is_digit ds"
      by (auto simp add: exp_part_def Let_def ds_def split: if_splits)
    moreover have "length (dropWhile is_digit ds) \<le> length ds"
      by (rule length_dropWhile_le)
    moreover have "length ds \<le> length s"
      by (simp add: ds_def)
    ultimately show ?thesis by simp
  qed
qed

lemma lex_number_shorter:
  assumes "lex_number s = Some (v, r)"
  shows "length r < length s"
proof -
  define s1 where "s1 = (if s \<noteq> [] \<and> hd s = 0x2D then tl s else s)"
  obtain ip r1 where i: "int_part s1 = (ip, r1)"
    by (cases "int_part s1")
  from assms i have ne: "ip \<noteq> []"
    by (auto simp: lex_number_def Let_def s1_def split: if_splits)
  from assms i ne obtain fp r2 e where f: "frac_part r1 = Some (fp, r2)" and x: "exp_part r2 = Some (e, r)"
    by (auto simp: lex_number_def Let_def s1_def split: if_splits option.splits)
  have "length s1 \<le> length s"
    by (simp add: s1_def)
  with int_part_shorter [OF i ne] frac_part_shorter [OF f] exp_part_shorter [OF x]
  show ?thesis by linarith
qed

function tokenize :: "jsstring \<Rightarrow> token list option" where
  "tokenize [] = Some []"
| "tokenize (c # cs) =
     (if c = 0x20 \<or> c = 0x9 \<or> c = 0xA \<or> c = 0xD then tokenize cs
      else if c = 0x7B then map_option ((#) TLBrace) (tokenize cs)
      else if c = 0x7D then map_option ((#) TRBrace) (tokenize cs)
      else if c = 0x5B then map_option ((#) TLBrack) (tokenize cs)
      else if c = 0x5D then map_option ((#) TRBrack) (tokenize cs)
      else if c = 0x3A then map_option ((#) TColon) (tokenize cs)
      else if c = 0x2C then map_option ((#) TComma) (tokenize cs)
      else if c = 0x22 then
        (case lex_string [] cs of
           None \<Rightarrow> None
         | Some (s, r) \<Rightarrow> map_option ((#) (TStr s)) (tokenize r))
      else if take 4 (c # cs) = ascii ''true'' then map_option ((#) TTrue) (tokenize (drop 3 cs))
      else if take 5 (c # cs) = ascii ''false'' then map_option ((#) TFalse) (tokenize (drop 4 cs))
      else if take 4 (c # cs) = ascii ''null'' then map_option ((#) TNull) (tokenize (drop 3 cs))
      else
        (case lex_number (c # cs) of
           None \<Rightarrow> None
         | Some (v, r) \<Rightarrow> map_option ((#) (TNum v)) (tokenize r)))"
  by pat_completeness auto
termination
  by (relation "measure length")
     (auto dest: lex_string_shorter lex_number_shorter)

text \<open>
  The automaton. A frame is an open array with its elements so far (last first), or an open
  object with its properties so far, or an open object with a key that waits for its value.
  A repeated key overwrites the value of the property (\<open>CreateDataProperty\<close>).
\<close>

datatype frame = InArr "json list" | InObj object | InObjKey object jsstring

datatype pmode =
    WantValue | WantValueOrClose | WantKeyOrClose | WantKey | WantColon | WantCommaOrClose
  | Finished json

fun deliver :: "json \<Rightarrow> frame list \<Rightarrow> (pmode \<times> frame list) option" where
  "deliver v [] = Some (Finished v, [])"
| "deliver v (InArr acc # st) = Some (WantCommaOrClose, InArr (v # acc) # st)"
| "deliver v (InObjKey ps k # st) = Some (WantCommaOrClose, InObj (AList.update k v ps) # st)"
| "deliver v (InObj ps # st) = None"

fun scalar :: "token \<Rightarrow> json option" where
  "scalar (TStr s) = Some (JStr s)"
| "scalar (TNum r) = Some (JNum r)"
| "scalar TTrue = Some (JBool True)"
| "scalar TFalse = Some (JBool False)"
| "scalar TNull = Some JNull"
| "scalar _ = None"

fun begin_value :: "token \<Rightarrow> frame list \<Rightarrow> (pmode \<times> frame list) option" where
  "begin_value TLBrack st = Some (WantValueOrClose, InArr [] # st)"
| "begin_value TLBrace st = Some (WantKeyOrClose, InObj [] # st)"
| "begin_value t st = (case scalar t of None \<Rightarrow> None | Some v \<Rightarrow> deliver v st)"

fun pstep :: "pmode \<times> frame list \<Rightarrow> token \<Rightarrow> (pmode \<times> frame list) option" where
  "pstep (WantValue, st) t = begin_value t st"
| "pstep (WantValueOrClose, InArr acc # st) TRBrack = deliver (JArr (rev acc)) st"
| "pstep (WantValueOrClose, st) t = begin_value t st"
| "pstep (WantKeyOrClose, InObj ps # st) TRBrace = deliver (JObj ps) st"
| "pstep (WantKeyOrClose, InObj ps # st) (TStr k) = Some (WantColon, InObjKey ps k # st)"
| "pstep (WantKey, InObj ps # st) (TStr k) = Some (WantColon, InObjKey ps k # st)"
| "pstep (WantColon, st) TColon = Some (WantValue, st)"
| "pstep (WantCommaOrClose, InArr acc # st) TComma = Some (WantValue, InArr acc # st)"
| "pstep (WantCommaOrClose, InArr acc # st) TRBrack = deliver (JArr (rev acc)) st"
| "pstep (WantCommaOrClose, InObj ps # st) TComma = Some (WantKey, InObj ps # st)"
| "pstep (WantCommaOrClose, InObj ps # st) TRBrace = deliver (JObj ps) st"
| "pstep _ _ = None"

fun parse_tokens :: "pmode \<times> frame list \<Rightarrow> token list \<Rightarrow> json option" where
  "parse_tokens (Finished v, []) [] = Some v"
| "parse_tokens s [] = None"
| "parse_tokens s (t # ts) = (case pstep s t of None \<Rightarrow> None | Some s' \<Rightarrow> parse_tokens s' ts)"

definition JSON_parse :: "jsstring \<Rightarrow> error + json" where
  "JSON_parse text =
     (case tokenize text of
        None \<Rightarrow> Inl SyntaxError
      | Some ts \<Rightarrow>
          (case parse_tokens (WantValue, []) ts of
             None \<Rightarrow> Inl SyntaxError
           | Some v \<Rightarrow> Inr v))"

section \<open>Configuration and preferences\<close>

text \<open>
  \<open>Object.assign(target, source)\<close> copies the own enumerable properties of the source: the
  properties of an object, the elements of an array and the characters of a string under
  their indices, nothing for a number, a boolean, \<open>null\<close> or \<open>undefined\<close>. An assignment to
  \<open>__proto__\<close> sets the prototype of the target and creates no property. An object has each
  of its properties once: of a list that names a key twice, \<open>clearjunk\<close> keeps the first
  entry, which is the one that \<open>get_prop\<close> reads.
\<close>

definition index_props :: "json list \<Rightarrow> object" where
  "index_props xs = zip (map digits [0..<length xs]) xs"

fun own_props :: "json \<Rightarrow> object" where
  "own_props (JObj ps) = AList.clearjunk ps"
| "own_props (JArr xs) = index_props xs"
| "own_props (JStr s) = index_props (map (\<lambda>c. JStr [c]) s)"
| "own_props _ = []"

definition assign_prop :: "jsstring \<times> json \<Rightarrow> object \<Rightarrow> object" where
  "assign_prop p target =
     (if fst p = ascii ''__proto__'' then target else AList.update (fst p) (snd p) target)"

definition Object_assign :: "object \<Rightarrow> json option \<Rightarrow> object" where
  "Object_assign target source =
     (case source of None \<Rightarrow> target | Some v \<Rightarrow> fold assign_prop (own_props v) target)"

text \<open>\<open>x || {}\<close>: the empty object in place of a falsy value.\<close>

definition or_empty :: "json \<Rightarrow> json" where
  "or_empty x = (if ToBoolean x then x else JObj [])"

text \<open>
  \<open>getConf\<close> (lines 37-58). The file \<^verbatim>\<open>rcp-config.json\<close> that it loads is the wiki's own and
  is a parameter here: \<open>rcp_config\<close> is the JSON value in it.
\<close>

definition defaultConf :: object where
  "defaultConf =
     [(ascii ''dangerousTags'',
         JArr [JStr (ascii ''mw-blank''), JStr (ascii ''mw-changed-redirect-target''),
               JStr (ascii ''mw-manual-revert''), JStr (ascii ''mw-replace''),
               JStr (ascii ''mw-undo'')]),
      (ascii ''defaultPrefs'',
         JObj [(ascii ''origin'', JStr (ascii ''recentchanges'')),
               (ascii ''quantity'', JNum 10),
               (ascii ''frequency'', JNum 60),
               (ascii ''newOnly'', JBool False),
               (ascii ''namespace'', JStr (ascii ''all'')),
               (ascii ''direction'', JStr (ascii ''older''))])]"

definition getConf :: "json \<Rightarrow> object" where
  "getConf rcp_config = Object_assign defaultConf (Some (or_empty rcp_config))"

text \<open>
  The user option \<open>userjs-rcp\<close> of \<open>mw.user.options\<close>: absent (\<open>get\<close> returns \<open>null\<close>), or a
  string. \<open>setPreferences\<close> writes the string \<open>JSON.stringify(options)\<close>; since
  \<open>JSON.parse\<close> reads such a string back as the value that was written, the model keeps the
  value itself for it.
\<close>

datatype stored = Text jsstring | Stringified json

fun JSON_parse_option :: "stored option \<Rightarrow> error + json" where
  "JSON_parse_option None = JSON_parse (ascii ''null'')"
| "JSON_parse_option (Some (Text s)) = JSON_parse s"
| "JSON_parse_option (Some (Stringified v)) = Inr v"

text \<open>\<open>getPreferences\<close> (lines 66-81); \<open>newPrefs\<close> is \<open>[]\<close> where the caller passes nothing.\<close>

definition getPreferences :: "json \<Rightarrow> stored option \<Rightarrow> object \<Rightarrow> error + object" where
  "getPreferences rcp_config userjs_rcp newPrefs =
     (case JSON_parse_option userjs_rcp of
        Inl e \<Rightarrow> Inl e
      | Inr parsed \<Rightarrow>
          (let userPrefs = or_empty parsed;
               prefs = Object_assign [] (get_prop (getConf rcp_config) ''defaultPrefs'');
               prefs = Object_assign prefs (Some userPrefs);
               prefs = Object_assign prefs (Some (JObj newPrefs))
           in Inr prefs))"

text \<open>\<open>setPreferences\<close> (lines 87-97): the new value of the user option. The request that
  posts the same string to the server is answered later (see \<open>persisted\<close>).\<close>

definition setPreferences :: "object \<Rightarrow> stored option" where
  "setPreferences options = Some (Stringified (JObj options))"

section \<open>The request for unpatrolled changes\<close>

record listType =
  list :: jsstring
  prefix :: jsstring

text \<open>\<open>getApiListType\<close> (lines 105-117).\<close>

definition getApiListType :: "json option \<Rightarrow> listType" where
  "getApiListType origin =
     (if origin = Some (JStr (ascii ''watchlist''))
      then \<lparr>list = ascii ''watchlist'', prefix = ascii ''wl''\<rparr>
      else \<lparr>list = ascii ''recentchanges'', prefix = ascii ''rc''\<rparr>)"

text \<open>The values of \<open>mw.config\<close> that the gadget reads.\<close>

record mw_config =
  wgContentNamespaces :: "int list"
  wgNamespaceIds :: "(jsstring \<times> int) list"
  skin :: jsstring

text \<open>\<open>[...new Set(xs)]\<close>: the elements in the order of their first occurrence.\<close>

definition Set_values :: "int list \<Rightarrow> int list" where
  "Set_values xs = fold (\<lambda>x seen. if x \<in> set seen then seen else seen @ [x]) xs []"

definition numbers :: "int list \<Rightarrow> json" where
  "numbers ns = JArr (map (\<lambda>n. JNum (of_int n)) ns)"

type_synonym request = "(jsstring \<times> json option) list"

text \<open>
  \<open>getUnpatrolled\<close> (lines 125-158): the request handed to \<open>api.get\<close>, and the new value of
  \<open>lastCheckedTime\<close>, which is the clock reading \<open>now\<close>.
\<close>

definition getUnpatrolled :: "mw_config \<Rightarrow> int \<Rightarrow> object \<Rightarrow> request \<times> int" where
  "getUnpatrolled cfg now prefs =
     (let listType = getApiListType (get_prop prefs ''origin'');
          editType = (if truthy (get_prop prefs ''newOnly'') then JStr (ascii ''new'')
                      else JArr [JStr (ascii ''edit''), JStr (ascii ''new'')]);
          request =
            [(ascii ''action'', Some (JStr (ascii ''query''))),
             (ascii ''list'', Some (JStr (list listType))),
             (ascii ''format'', Some (JStr (ascii ''json''))),
             (ascii ''formatversion'', Some (JNum 2)),
             (prefix listType @ ascii ''show'', Some (JStr (ascii ''!patrolled''))),
             (prefix listType @ ascii ''type'', Some editType),
             (prefix listType @ ascii ''prop'',
                Some (JArr [JStr (ascii ''title''), JStr (ascii ''timestamp''), JStr (ascii ''ids''),
                            JStr (ascii ''sizes''), JStr (ascii ''tags'')])),
             (prefix listType @ ascii ''dir'', get_prop prefs ''direction''),
             (prefix listType @ ascii ''limit'', get_prop prefs ''quantity''),
             (ascii ''maxage'', get_prop prefs ''frequency''),
             (ascii ''smaxage'', get_prop prefs ''frequency'')];
          contentNamespaces = wgContentNamespaces cfg;
          request =
            (if get_prop prefs ''namespace'' = Some (JStr (ascii ''content'')) then
               request @ [(prefix listType @ ascii ''namespace'', Some (numbers contentNamespaces))]
             else if get_prop prefs ''namespace'' = Some (JStr (ascii ''noncontent'')) then
               (let allNamespaces = map snd (wgNamespaceIds cfg);
                    allNamespaces = Set_values allNamespaces;
                    nonContentNamespaces = filter (\<lambda>ns. ns \<notin> set contentNamespaces) allNamespaces
                in request @ [(prefix listType @ ascii ''namespace'', Some (numbers nonContentNamespaces))])
             else request)
      in (request, now))"

section \<open>The portlet\<close>

text \<open>
  One change of the API's answer, with the properties that the request asks for, and one
  entry of the portlet \<open>p-unpatrolled\<close>: the identifier given to \<open>addPortletLink\<close>, the target
  of its link (the diff of a revision to the one before; none once the link is replaced by
  plain text), its label (a title, or the message of a key), the classes of
  the list item, the attributes \<open>data-rcp-diffsize\<close>, \<open>data-rcp-indicator-new\<close> and
  \<open>data-rcp-indicator-highlight\<close> of the title, and the timestamp whose age is displayed.
\<close>

record change =
  title :: jsstring
  revid :: int
  timestamp :: jsstring
  oldlen :: int
  newlen :: int
  tags :: "jsstring list"
  type :: jsstring

datatype href = DiffUrl jsstring int

datatype label = Title jsstring | Message string

record entry =
  link_id :: "jsstring option"
  link_href :: "href option"
  link_label :: label
  classes :: "jsstring list"
  diffsize :: "json option"
  indicator_new :: bool
  indicator_highlight :: bool
  time_shown :: "jsstring option"

text \<open>A function that ends normally in a state, or throws and leaves a state behind.\<close>

datatype 'a outcome = Done 'a | Threw error 'a

fun state_of :: "'a outcome \<Rightarrow> 'a" where
  "state_of (Done s) = s"
| "state_of (Threw e s) = s"

text \<open>
  \<open>createPortletEntry\<close> (lines 165-239). \<open>sizeDiff\<close> starts as the number
  \<open>data.newlen - data.oldlen\<close> and is overwritten by a string when it is not zero: \<open>+\<close> and
  the digits, or the minus sign U+2212 and the digits of the absolute value.
  \<open>Math.abs(sizeDiff)\<close> then converts what the variable holds to a number.
  \<open>dangerousTags.filter\<close> throws a \<open>TypeError\<close> when the configured value is no array.
\<close>

definition dangerous :: "json \<Rightarrow> change \<Rightarrow> error + bool" where
  "dangerous rcp_config data =
     (case get_prop (getConf rcp_config) ''dangerousTags'' of
        Some (JArr ts) \<Rightarrow> Inr (filter (\<lambda>tag. tag \<in> JStr ` set (tags data)) ts \<noteq> [])
      | _ \<Rightarrow> Inl TypeError)"

definition createPortletEntry :: "json \<Rightarrow> mw_config \<Rightarrow> change \<Rightarrow> entry outcome" where
  "createPortletEntry rcp_config cfg data =
     (let portletLink =
            \<lparr>link_id = None, link_href = Some (DiffUrl (title data) (revid data)),
             link_label = Title (title data), classes = [], diffsize = None,
             indicator_new = False, indicator_highlight = False, time_shown = None\<rparr>;
          classesToAdd = [ascii ''userjs-rcp-item''];
          delta = newlen data - oldlen data;
          classesToAdd =
            (if 0 < delta then classesToAdd @ [ascii ''userjs-rcp-diff-positive'']
             else if delta < 0 then classesToAdd @ [ascii ''userjs-rcp-diff-negative'']
             else classesToAdd);
          sizeDiff =
            (if 0 < delta then JStr (0x2B # toString delta)
             else if delta < 0 then JStr (0x2212 # toString \<bar>delta\<bar>)
             else JNum (of_int delta));
          classesToAdd =
            (if js_ge (Math_abs (ToNumber sizeDiff)) (Fin 500)
             then classesToAdd @ [ascii ''userjs-rcp-diff-large'']
             else classesToAdd);
          portletLink = portletLink\<lparr>diffsize := Some sizeDiff\<rparr>;
          new = (type data = ascii ''new'');
          classesToAdd = (if new then classesToAdd @ [ascii ''userjs-rcp-item-new''] else classesToAdd);
          portletLink = portletLink\<lparr>indicator_new := new\<rparr>
      in case dangerous rcp_config data of
           Inl e \<Rightarrow> Threw e portletLink
         | Inr d \<Rightarrow>
             (let classesToAdd =
                    (if d then classesToAdd @ [ascii ''userjs-rcp-item-highlight''] else classesToAdd);
                  portletLink = portletLink\<lparr>indicator_highlight := d, classes := classesToAdd\<rparr>;
                  portletLink =
                    (if skin cfg = ascii ''minerva''
                     then portletLink\<lparr>classes := classes portletLink @ [ascii ''toggle-list-item'']\<rparr>
                     else portletLink)
              in Done (portletLink\<lparr>time_shown := Some (timestamp data)\<rparr>)))"

text \<open>The entry that stands for an empty list (lines 265-276).\<close>

definition fakePortletLink :: entry where
  "fakePortletLink =
     \<lparr>link_id = Some (ascii ''n-userjs-rcp-emptylist''), link_href = None,
      link_label = Message ''userjs-rcp-portlet-empty'', classes = [], diffsize = None,
      indicator_new = False, indicator_highlight = False, time_shown = None\<rparr>"

section \<open>Polling\<close>

text \<open>
  The state of the page: the variables \<open>intervalId\<close> and \<open>lastCheckedTime\<close>, the user option,
  the interval timers of the window that are active (identifier and delay; the callback of
  each is \<open>populateList\<close>) and the number of timers created so far, the entries of the
  portlet, whether its list carries the class \<open>oo-ui-pendingElement-pending\<close>, the API
  requests that are not answered yet, the lines written to the console and the messages
  shown by \<open>mw.notify\<close>. \<open>document.hidden\<close> and \<open>Date.now()\<close> are inputs of each function.
\<close>

record fetch =
  fetch_initial :: bool
  fetch_prefs :: object
  fetch_request :: request

record state =
  intervalId :: "nat option"
  lastCheckedTime :: int
  userjs_rcp :: "stored option"
  timers :: "(nat \<times> jsnumber) list"
  timer_count :: nat
  entries :: "entry list"
  pending :: bool
  fetches :: "fetch list"
  console :: "jsstring list"
  notifications :: "string list"

definition clearInterval :: "nat option \<Rightarrow> state \<Rightarrow> state" where
  "clearInterval i st = st\<lparr>timers := filter (\<lambda>t. Some (fst t) \<noteq> i) (timers st)\<rparr>"

text \<open>\<open>intervalId = setInterval(populateList, delay)\<close>: a timer with a fresh identifier.\<close>

definition setInterval :: "jsnumber \<Rightarrow> state \<Rightarrow> state" where
  "setInterval delay st =
     st\<lparr>timers := timers st @ [(Suc (timer_count st), delay)],
        timer_count := Suc (timer_count st),
        intervalId := Some (Suc (timer_count st))\<rparr>"

text \<open>\<open>getPreferences().frequency * 1000\<close>.\<close>

definition frequency_ms :: "object \<Rightarrow> jsnumber" where
  "frequency_ms prefs = js_mul (to_number (get_prop prefs ''frequency'')) (Fin 1000)"

text \<open>\<open>populateList\<close> (lines 247-286), up to the call of \<open>api.get\<close>.\<close>

definition populateList :: "json \<Rightarrow> mw_config \<Rightarrow> bool \<Rightarrow> bool \<Rightarrow> int \<Rightarrow> state \<Rightarrow> state outcome" where
  "populateList rcp_config cfg initial hidden now st =
     (if hidden then Done st
      else
        (case getPreferences rcp_config (userjs_rcp st) [] of
           Inl e \<Rightarrow> Threw e st
         | Inr prefs \<Rightarrow>
             (let st = (if \<not> initial then st\<lparr>pending := True\<rparr> else st);
                  (request, t) = getUnpatrolled cfg now prefs
              in Done (st\<lparr>lastCheckedTime := t,
                           fetches := fetches st @
                             [\<lparr>fetch_initial = initial, fetch_prefs = prefs,
                               fetch_request = request\<rparr>]\<rparr>))))"

text \<open>The loop over the changes (lines 280-282): an entry is in the portlet as soon as
  \<open>addPortletLink\<close> has made it, also when the rest of \<open>createPortletEntry\<close> throws.\<close>

fun create_entries :: "json \<Rightarrow> mw_config \<Rightarrow> change list \<Rightarrow> state \<Rightarrow> state outcome" where
  "create_entries rcp_config cfg [] st = Done st"
| "create_entries rcp_config cfg (c # cs) st =
     (case createPortletEntry rcp_config cfg c of
        Threw e x \<Rightarrow> Threw e (st\<lparr>entries := entries st @ [x]\<rparr>)
      | Done x \<Rightarrow> create_entries rcp_config cfg cs (st\<lparr>entries := entries st @ [x]\<rparr>))"

text \<open>
  The callback of \<open>done\<close> (lines 255-283) for the request \<open>f\<close>; \<open>query\<close> is \<open>data.query\<close>, the
  lists of the answer by their names. Reading the length of a list that the answer does
  not have throws a \<open>TypeError\<close>.
\<close>

definition fetch_done ::
  "json \<Rightarrow> mw_config \<Rightarrow> fetch \<Rightarrow> (jsstring \<times> change list) list \<Rightarrow> state \<Rightarrow> state outcome" where
  "fetch_done rcp_config cfg f query st =
     (let st = (if \<not> fetch_initial f then st\<lparr>entries := [], pending := False\<rparr> else st);
          changeListType = list (getApiListType (get_prop (fetch_prefs f) ''origin''))
      in case map_of query changeListType of
           None \<Rightarrow> Threw TypeError st
         | Some changeList \<Rightarrow>
             if length changeList = 0
             then Done (st\<lparr>entries := entries st @ [fakePortletLink]\<rparr>)
             else create_entries rcp_config cfg changeList st)"

text \<open>The callback of \<open>fail\<close> (lines 283-285): one line on the console.\<close>

definition fetch_fail :: "jsstring \<Rightarrow> state \<Rightarrow> state" where
  "fetch_fail err st = st\<lparr>console := console st @ [ascii ''Error from Gadget-rcp.js: '' @ err]\<rparr>"

text \<open>\<open>refreshList\<close> (lines 291-295).\<close>

definition refreshList :: "json \<Rightarrow> mw_config \<Rightarrow> bool \<Rightarrow> int \<Rightarrow> state \<Rightarrow> state outcome" where
  "refreshList rcp_config cfg hidden now st =
     (case populateList rcp_config cfg False hidden now (clearInterval (intervalId st) st) of
        Threw e st1 \<Rightarrow> Threw e st1
      | Done st1 \<Rightarrow>
          (case getPreferences rcp_config (userjs_rcp st1) [] of
             Inl e \<Rightarrow> Threw e st1
           | Inr prefs \<Rightarrow> Done (setInterval (frequency_ms prefs) st1)))"

text \<open>The listener of \<open>visibilitychange\<close> (lines 499-505).\<close>

definition visibilitychange :: "json \<Rightarrow> mw_config \<Rightarrow> bool \<Rightarrow> int \<Rightarrow> state \<Rightarrow> state outcome" where
  "visibilitychange rcp_config cfg hidden now st =
     (if hidden then Done st
      else
        (case getPreferences rcp_config (userjs_rcp st) [] of
           Inl e \<Rightarrow> Threw e st
         | Inr prefs \<Rightarrow>
             if js_gt (Fin (of_int (now - lastCheckedTime st))) (frequency_ms prefs)
             then refreshList rcp_config cfg hidden now st
             else Done st))"

text \<open>The top level of the script (lines 13-15 and 489-505), from the user option that the
  page was loaded with. When it throws, the script ends there: no timer and no listener.\<close>

definition initial_state :: "stored option \<Rightarrow> state" where
  "initial_state opt =
     \<lparr>intervalId = None, lastCheckedTime = 0, userjs_rcp = opt, timers = [], timer_count = 0,
      entries = [], pending = False, fetches = [], console = [], notifications = []\<rparr>"


section \<open>The options dialog\<close>

text \<open>
  The handlers that \<open>initialize\<close> attaches to the six widgets (lines 348-445) write into
  the object \<open>newPrefs\<close>, which starts empty. A button group reports the data of the chosen
  item and whether it is selected, the checkbox whether it is selected, a number input its
  value.
\<close>

datatype dialog_event =
    ChooseOrigin json bool
  | ChooseNamespace json bool
  | ChooseDirection json bool
  | ChangeNewOnly bool
  | ChangeQuantity json
  | ChangeFrequency json

definition set_prop :: "string \<Rightarrow> json \<Rightarrow> object \<Rightarrow> object" where
  "set_prop k v obj = AList.update (ascii k) v obj"

fun handler :: "dialog_event \<Rightarrow> object \<Rightarrow> object" where
  "handler (ChooseOrigin d selected) newPrefs =
     (if selected then set_prop ''origin'' d newPrefs else newPrefs)"
| "handler (ChooseNamespace d selected) newPrefs =
     (if selected then set_prop ''namespace'' d newPrefs else newPrefs)"
| "handler (ChooseDirection d selected) newPrefs =
     (if selected then set_prop ''direction'' d newPrefs else newPrefs)"
| "handler (ChangeNewOnly selected) newPrefs =
     (if selected then set_prop ''newOnly'' (JBool True) newPrefs else newPrefs)"
| "handler (ChangeQuantity v) newPrefs =
     (if js_ge (ToNumber v) (Fin 1) \<and> js_le (ToNumber v) (Fin 20)
      then set_prop ''quantity'' v newPrefs else newPrefs)"
| "handler (ChangeFrequency v) newPrefs =
     (if js_ge (ToNumber v) (Fin 30) \<and> js_le (ToNumber v) (Fin 600)
      then set_prop ''frequency'' v newPrefs else newPrefs)"

text \<open>The patch of a dialog after a sequence of events.\<close>

definition patch_after :: "dialog_event list \<Rightarrow> object" where
  "patch_after evs = fold handler evs []"

text \<open>
  \<open>getActionProcess\<close> (lines 463-479) up to the call of \<open>setPreferences\<close>, which writes the
  user option at once; \<open>persisted\<close> and \<open>persist_failed\<close> are the callbacks for the answer
  of the server. An exception in the callback of \<open>then\<close> rejects the promise, so the
  callback of \<open>fail\<close> runs for it too.
\<close>

definition getActionProcess :: "json \<Rightarrow> jsstring \<Rightarrow> object \<Rightarrow> state \<Rightarrow> state outcome" where
  "getActionProcess rcp_config action newPrefs st =
     (if action = ascii ''save'' \<or> action = ascii ''reset'' then
        (case getPreferences rcp_config (userjs_rcp st) newPrefs of
           Inl e \<Rightarrow> Threw e st
         | Inr newoptions \<Rightarrow>
             (let newoptions = (if action = ascii ''reset'' then [] else newoptions)
              in Done (st\<lparr>userjs_rcp := setPreferences newoptions\<rparr>)))
      else Done st)"

definition persist_failed :: "state \<Rightarrow> state" where
  "persist_failed st = st\<lparr>notifications := notifications st @ [''userjs-rcp-error'']\<rparr>"

definition persisted :: "json \<Rightarrow> mw_config \<Rightarrow> bool \<Rightarrow> int \<Rightarrow> state \<Rightarrow> state" where
  "persisted rcp_config cfg hidden now st =
     (case refreshList rcp_config cfg hidden now st of
        Done st1 \<Rightarrow> st1
      | Threw e st1 \<Rightarrow> persist_failed st1)"

section \<open>The page as a transition system\<close>

text \<open>
  What can happen after the script has run: a timer fires, the visibility of the page
  changes, a request is answered with lists of changes or fails, a dialog gets an action,
  the server answers a save. An exception that a callback does not catch ends the callback
  and leaves the state as it is then.
\<close>

datatype event =
    TimerFires nat
  | VisibilityChange
  | FetchDone nat "(jsstring \<times> change list) list"
  | FetchFail nat jsstring
  | DialogAction jsstring "dialog_event list"
  | Persisted
  | PersistFailed

definition drop_nth :: "nat \<Rightarrow> 'a list \<Rightarrow> 'a list" where
  "drop_nth n xs = take n xs @ drop (Suc n) xs"

fun step :: "json \<Rightarrow> mw_config \<Rightarrow> bool \<Rightarrow> int \<Rightarrow> event \<Rightarrow> state \<Rightarrow> state" where
  "step rcp_config cfg hidden now (TimerFires i) st =
     (if i \<in> fst ` set (timers st)
      then state_of (populateList rcp_config cfg False hidden now st) else st)"
| "step rcp_config cfg hidden now VisibilityChange st =
     state_of (visibilitychange rcp_config cfg hidden now st)"
| "step rcp_config cfg hidden now (FetchDone n query) st =
     (if n < length (fetches st)
      then state_of (fetch_done rcp_config cfg (fetches st ! n) query
                       (st\<lparr>fetches := drop_nth n (fetches st)\<rparr>))
      else st)"
| "step rcp_config cfg hidden now (FetchFail n err) st =
     (if n < length (fetches st)
      then fetch_fail err (st\<lparr>fetches := drop_nth n (fetches st)\<rparr>)
      else st)"
| "step rcp_config cfg hidden now (DialogAction action evs) st =
     state_of (getActionProcess rcp_config action (patch_after evs) st)"
| "step rcp_config cfg hidden now Persisted st = persisted rcp_config cfg hidden now st"
| "step rcp_config cfg hidden now PersistFailed st = persist_failed st"


section \<open>The vocabulary of the statements\<close>


definition props_of :: "json option \<Rightarrow> object" where
  "props_of v = (case v of None \<Rightarrow> [] | Some x \<Rightarrow> own_props x)"

definition first_defined :: "json option \<Rightarrow> json option \<Rightarrow> json option" where
  "first_defined a b = (case a of Some v \<Rightarrow> Some v | None \<Rightarrow> b)"


text \<open>A configuration of \<open>mw.config\<close> for the examples.\<close>

definition example_config :: mw_config where
  "example_config =
     \<lparr>wgContentNamespaces = [0],
      wgNamespaceIds = [(ascii ''main'', 0), (ascii ''talk'', 1)],
      skin = ascii ''vector''\<rparr>"

text \<open>The text \<open>"s"\<close>, for the examples.\<close>

definition quoted :: "string \<Rightarrow> jsstring" where
  "quoted s = 0x22 # ascii s @ [0x22]"

section \<open>Lemmas\<close>

subsection \<open>Strings and digits\<close>

lemma ascii_eq_iff [simp]: "ascii a = ascii b \<longleftrightarrow> a = b"
  unfolding ascii_def by (rule inj_map_eq_map) (rule inj_of_char)

lemma ascii_append: "ascii a @ ascii b = ascii (a @ b)"
  by (simp add: ascii_def)

lemma ascii_Nil [simp]: "ascii [] = []"
  by (simp add: ascii_def)

lemma radix_val_snoc: "radix_val r (xs @ [c]) = r * radix_val r xs + (case hex_val c of None \<Rightarrow> 0 | Some d \<Rightarrow> d)"
  by (simp add: radix_val_def)

lemma hex_val_digit: "d < 10 \<Longrightarrow> hex_val (0x30 + d) = Some d"
  by (simp add: hex_val_def)

lemma radix_val_digits: "radix_val 10 (digits n) = n"
proof (induction n rule: digits.induct)
  case (1 n)
  show ?case
  proof (cases "n < 10")
    case True
    then show ?thesis
      using hex_val_digit [of n] radix_val_snoc [of 10 "[]" "0x30 + n"]
      by (subst digits.simps) (simp add: radix_val_def)
  next
    case False
    have "n mod 10 < 10" by simp
    from hex_val_digit [OF this] False 1 show ?thesis
      by (subst digits.simps) (simp add: radix_val_snoc)
  qed
qed

lemma inj_digits: "inj digits"
  by (rule inj_on_inverseI [where g = "radix_val 10"]) (simp add: radix_val_digits)

lemma digits_not_Nil: "digits n \<noteq> []"
  by (subst digits.simps) simp

lemma digits_all: "list_all is_digit (digits n)"
proof (induction n rule: digits.induct)
  case (1 n)
  show ?case
  proof (cases "n < 10")
    case True
    then show ?thesis by (subst digits.simps) (simp add: is_digit_def)
  next
    case False
    have "n mod 10 < 10" by simp
    then have "is_digit (0x30 + n mod 10)" by (simp add: is_digit_def)
    with False 1 show ?thesis by (subst digits.simps) simp
  qed
qed

lemma digit_no_space: "is_digit c \<Longrightarrow> \<not> StrWhiteSpaceChar c"
  by (auto simp: is_digit_def StrWhiteSpaceChar_def)

lemma trim_id: "s \<noteq> [] \<Longrightarrow> \<not> StrWhiteSpaceChar (hd s) \<Longrightarrow> \<not> StrWhiteSpaceChar (last s) \<Longrightarrow> trim s = s"
proof -
  assume ne: "s \<noteq> []" and h: "\<not> StrWhiteSpaceChar (hd s)" and l: "\<not> StrWhiteSpaceChar (last s)"
  from ne h have 1: "dropWhile StrWhiteSpaceChar s = s" by (cases s) auto
  from ne l have 2: "dropWhile StrWhiteSpaceChar (rev s) = rev s"
    by (cases "rev s") (auto simp: hd_rev [symmetric])
  from 1 2 show ?thesis by (simp add: trim_def)
qed

lemma trim_signed_digits:
  assumes "\<not> StrWhiteSpaceChar c"
  shows "trim (c # digits n) = c # digits n"
proof (rule trim_id)
  show "c # digits n \<noteq> []" by simp
  show "\<not> StrWhiteSpaceChar (hd (c # digits n))" using assms by simp
  have "last (digits n) \<in> set (digits n)" using digits_not_Nil by (rule last_in_set)
  with digits_all [of n] have "is_digit (last (digits n))" by (simp add: list_all_iff)
  then show "\<not> StrWhiteSpaceChar (last (c # digits n))"
    using digits_not_Nil by (simp add: digit_no_space)
qed

lemma takeWhile_digits: "takeWhile is_digit (digits n) = digits n"
  using digits_all [of n] by (simp add: list_all_iff)

lemma dropWhile_digits: "dropWhile is_digit (digits n) = []"
  using digits_all [of n] by (simp add: list_all_iff)

lemma digits_not_Infinity: "digits n \<noteq> ascii ''Infinity''"
proof
  assume "digits n = ascii ''Infinity''"
  with digits_all [of n] show False by (simp add: ascii_def is_digit_def)
qed

lemma unsigned_digits: "StrUnsignedDecimalLiteral (digits n) = Fin (of_nat n)"
  using digits_not_Nil [of n]
  by (simp add: StrUnsignedDecimalLiteral_def digits_not_Infinity takeWhile_digits
      dropWhile_digits exponent_part_def radix_val_digits pow10_def)

lemma plus_digits: "StringToNumber (0x2B # digits n) = Fin (of_nat n)"
proof -
  have "trim (0x2B # digits n) = 0x2B # digits n"
    by (rule trim_signed_digits) (simp add: StrWhiteSpaceChar_def)
  then show ?thesis by (simp add: StringToNumber_def unsigned_digits)
qed

lemma minus_sign_digits: "StringToNumber (0x2212 # digits n) = NaN"
proof -
  have "trim (0x2212 # digits n) = 0x2212 # digits n"
    by (rule trim_signed_digits) (simp add: StrWhiteSpaceChar_def)
  moreover have "StrUnsignedDecimalLiteral (0x2212 # digits n) = NaN"
    by (simp add: StrUnsignedDecimalLiteral_def ascii_def is_digit_def)
  ultimately show ?thesis by (simp add: StringToNumber_def)
qed

lemmas number_eval =
  StringToNumber_def trim_def StrWhiteSpaceChar_def StrUnsignedDecimalLiteral_def is_digit_def
  exponent_part_def radix_val_def hex_val_def pow10_def toString_def digits.simps
  js_ge_def js_le_def js_gt_def

lemmas json_eval =
  JSON_parse_def ascii_def quoted_def lex_number_def int_part_def frac_part_def exp_part_def
  is_digit_def radix_val_def hex_val_def pow10_def unescape_def

lemma JSON_parse_null: "JSON_parse (ascii ''null'') = Inr JNull"
  by (simp add: JSON_parse_def ascii_def)

lemma JSON_parse_error: "JSON_parse s = Inl e \<Longrightarrow> e = SyntaxError"
  by (auto simp: JSON_parse_def split: option.splits)

subsection \<open>Reading what \<open>Object.assign\<close> wrote\<close>

lemma map_of_assign_prop:
  "map_of (assign_prop p t) k =
     (if fst p = ascii ''__proto__'' then map_of t k else ((map_of t)(fst p \<mapsto> snd p)) k)"
  by (simp add: assign_prop_def update_conv')

lemma map_of_fold_assign:
  "distinct (map fst ps) \<Longrightarrow>
   map_of (fold assign_prop ps t) k =
     (if k = ascii ''__proto__'' then map_of t k
      else (case map_of ps k of Some v \<Rightarrow> Some v | None \<Rightarrow> map_of t k))"
proof (induction ps arbitrary: t k)
  case Nil
  then show ?case by simp
next
  case (Cons p ps)
  from Cons.prems have d: "distinct (map fst ps)" and n: "fst p \<notin> fst ` set ps"
    by auto
  from n have none: "map_of ps (fst p) = None"
    by (simp add: map_of_eq_None_iff)
  obtain a b where p: "p = (a, b)" by (cases p)
  show ?case
  proof (cases "k = a")
    case True
    with none p show ?thesis
      by (simp add: Cons.IH [OF d] map_of_assign_prop)
  next
    case False
    with p show ?thesis
      by (simp add: Cons.IH [OF d] map_of_assign_prop split: option.splits)
  qed
qed

lemma distinct_index_props: "distinct (map fst (index_props xs))"
proof -
  have "map fst (index_props xs) = map digits [0..<length xs]"
    by (simp add: index_props_def)
  then show ?thesis
    by (simp add: distinct_map inj_digits inj_on_subset [OF inj_digits])
qed

lemma distinct_own_props: "distinct (map fst (own_props v))"
  by (cases v) (simp_all add: distinct_index_props distinct_clearjunk)

lemma map_of_Object_assign:
  "k \<noteq> ascii ''__proto__'' \<Longrightarrow>
   map_of (Object_assign t (Some v)) k =
     (case map_of (own_props v) k of Some x \<Rightarrow> Some x | None \<Rightarrow> map_of t k)"
  by (simp add: Object_assign_def map_of_fold_assign distinct_own_props)

lemma get_prop_Object_assign:
  "k \<noteq> ''__proto__'' \<Longrightarrow>
   get_prop (Object_assign t (Some v)) k =
     (case get_prop (own_props v) k of Some x \<Rightarrow> Some x | None \<Rightarrow> get_prop t k)"
  by (simp add: get_prop_def map_of_Object_assign split: option.splits)

lemma Object_assign_None [simp]: "Object_assign t None = t"
  by (simp add: Object_assign_def)

lemma get_prop_Nil [simp]: "get_prop [] k = None"
  by (simp add: get_prop_def)

lemma first_defined_None [simp]: "first_defined a None = a"
  by (simp add: first_defined_def split: option.splits)

lemma first_defined_left [simp]: "first_defined None b = b"
  by (simp add: first_defined_def)

lemma props_of_empty [simp]: "props_of (Some (JObj [])) = []"
  by (simp add: props_of_def)

lemma get_prop_clearjunk [simp]: "get_prop (AList.clearjunk obj) k = get_prop obj k"
  by (simp add: get_prop_def map_of_clearjunk)

lemma get_prop_assign:
  "k \<noteq> ''__proto__'' \<Longrightarrow>
   get_prop (Object_assign t s) k = first_defined (get_prop (props_of s) k) (get_prop t k)"
  by (cases s) (simp_all add: get_prop_Object_assign props_of_def first_defined_def)

lemma get_prop_set_prop:
  "get_prop (set_prop k v obj) k' = (if k = k' then Some v else get_prop obj k')"
  by (simp add: get_prop_def set_prop_def update_conv')

lemma builtin_defaultPrefs:
  assumes "get_prop (own_props (or_empty rcp_config)) ''defaultPrefs'' = None"
  shows "get_prop (getConf rcp_config) ''defaultPrefs'' =
           Some (JObj [(ascii ''origin'', JStr (ascii ''recentchanges'')),
                       (ascii ''quantity'', JNum 10),
                       (ascii ''frequency'', JNum 60),
                       (ascii ''newOnly'', JBool False),
                       (ascii ''namespace'', JStr (ascii ''all'')),
                       (ascii ''direction'', JStr (ascii ''older''))])"
proof -
  have "get_prop (getConf rcp_config) ''defaultPrefs'' =
          first_defined (get_prop (own_props (or_empty rcp_config)) ''defaultPrefs'')
            (get_prop defaultConf ''defaultPrefs'')"
    by (simp add: getConf_def get_prop_assign props_of_def)
  with assms show ?thesis
    by (simp add: first_defined_def defaultConf_def get_prop_def)
qed


lemma getPreferences_Stringified_empty:
  "getPreferences rcp_config (Some (Stringified (JObj []))) newPrefs =
     Inr (Object_assign (Object_assign [] (get_prop (getConf rcp_config) ''defaultPrefs''))
            (Some (JObj newPrefs)))"
  by (simp add: getPreferences_def or_empty_def Object_assign_def Let_def)



lemma dangerous_default:
  "dangerous (JObj []) data =
     Inr (filter (\<lambda>tag. tag \<in> JStr ` set (tags data))
            [JStr (ascii ''mw-blank''), JStr (ascii ''mw-changed-redirect-target''),
             JStr (ascii ''mw-manual-revert''), JStr (ascii ''mw-replace''),
             JStr (ascii ''mw-undo'')] \<noteq> [])"
  by (simp add: dangerous_def getConf_def or_empty_def Object_assign_def defaultConf_def
      get_prop_def)

subsection \<open>The namespaces without duplicates\<close>

lemma set_fold_seen:
  "set (fold (\<lambda>x seen. if x \<in> set seen then seen else seen @ [x]) xs acc) = set acc \<union> set xs"
  by (induction xs arbitrary: acc) auto

lemma distinct_fold_seen:
  "distinct acc \<Longrightarrow> distinct (fold (\<lambda>x seen. if x \<in> set seen then seen else seen @ [x]) xs acc)"
  by (induction xs arbitrary: acc) auto

lemma set_Set_values: "set (Set_values xs) = set xs"
  by (simp add: Set_values_def set_fold_seen)

lemma distinct_Set_values: "distinct (Set_values xs)"
  by (simp add: Set_values_def distinct_fold_seen)

subsection \<open>What each function leaves alone\<close>






subsection \<open>The invariant of the page\<close>













subsection \<open>The patch of the dialog\<close>

lemma handler_newOnly:
  "get_prop (handler ev p) ''newOnly'' =
     (if ev = ChangeNewOnly True then Some (JBool True) else get_prop p ''newOnly'')"
  by (cases ev) (auto simp: get_prop_set_prop)

lemma fold_handler_newOnly:
  "get_prop (fold handler evs p) ''newOnly'' =
     (if ChangeNewOnly True \<in> set evs then Some (JBool True) else get_prop p ''newOnly'')"
proof (induction evs arbitrary: p)
  case Nil
  then show ?case by simp
next
  case (Cons ev evs)
  show ?case
    by (auto simp: Cons.IH handler_newOnly get_prop_set_prop)
qed

section \<open>Properties\<close>

subsection \<open>The size classes of an entry\<close>

lemma minus_sign_600: "ToNumber (JStr (0x2212 # toString 600)) = NaN"
  by (simp add: number_eval ascii_def)

text \<open>
  C1. A change from 700 to 100 bytes, under the built-in configuration: the entry gets the
  class \<open>userjs-rcp-diff-negative\<close> but not \<open>userjs-rcp-diff-large\<close>, although the size differs
  by 600. By then \<open>sizeDiff\<close> holds the string of U+2212 and \<open>600\<close>, which \<open>Math.abs\<close>
  converts to \<open>NaN\<close>, and \<open>NaN >= 500\<close> is false.
\<close>

theorem negative_600_not_large:
  "\<exists>e. createPortletEntry (JObj []) cfg (data\<lparr>oldlen := 700, newlen := 100\<rparr>) = Done e
     \<and> ascii ''userjs-rcp-diff-negative'' \<in> set (classes e)
     \<and> ascii ''userjs-rcp-diff-large'' \<notin> set (classes e)
     \<and> diffsize e = Some (JStr (0x2212 # ascii ''600''))"
  by (simp add: createPortletEntry_def Let_def dangerous_default minus_sign_600 number_eval
      ascii_def)

text \<open>
  What \<open>createPortletEntry\<close> does for every change, under the built-in configuration: the
  sign classes follow the sign of \<open>newlen - oldlen\<close>, and the class \<open>userjs-rcp-diff-large\<close>
  is given exactly when \<open>newlen - oldlen\<close> is at least 500, so never to a change that
  removes bytes.
\<close>

theorem size_classes:
  "\<exists>e. createPortletEntry (JObj []) cfg data = Done e
     \<and> (ascii ''userjs-rcp-diff-positive'' \<in> set (classes e) \<longleftrightarrow> oldlen data < newlen data)
     \<and> (ascii ''userjs-rcp-diff-negative'' \<in> set (classes e) \<longleftrightarrow> newlen data < oldlen data)
     \<and> (ascii ''userjs-rcp-diff-large'' \<in> set (classes e) \<longleftrightarrow> 500 \<le> newlen data - oldlen data)"
proof -
  let ?d = "newlen data - oldlen data"
  consider (pos) "0 < ?d" | (neg) "?d < 0" | (zero) "?d = 0" by linarith
  then show ?thesis
  proof cases
    case pos
    then have "ToNumber (JStr (0x2B # toString ?d)) = Fin (of_int ?d)"
      by (simp add: toString_def plus_digits)
    with pos show ?thesis
      by (simp add: createPortletEntry_def Let_def dangerous_default js_ge_def)
  next
    case neg
    then have "ToNumber (JStr (0x2212 # toString \<bar>?d\<bar>)) = NaN"
      by (simp add: toString_def minus_sign_digits)
    with neg show ?thesis
      by (simp add: createPortletEntry_def Let_def dangerous_default js_ge_def)
  next
    case zero
    then show ?thesis
      by (simp add: createPortletEntry_def Let_def dangerous_default js_ge_def)
  qed
qed

subsection \<open>Persisted settings that are not JSON\<close>

text \<open>
  C2 does not hold as stated: with \<open>{origin\<close> in the user option, which is not JSON,
  \<open>getPreferences\<close> throws the \<open>SyntaxError\<close> of \<open>JSON.parse\<close>.
\<close>

theorem malformed_settings_throw:
  "getPreferences (JObj []) (Some (Text (ascii ''{origin''))) [] = Inl SyntaxError"
  by (simp add: getPreferences_def json_eval)

text \<open>
  C2, amended. \<open>getPreferences\<close> ends normally when the user option is absent, and then the
  result is the default preferences overridden by \<open>newPrefs\<close>; when the option is a string,
  it throws a \<open>SyntaxError\<close> exactly when the string is not JSON, and ends normally exactly
  when it is; it ends normally on what \<open>setPreferences\<close> wrote.
\<close>

theorem settings_parse_or_throw:
  "getPreferences rcp_config None newPrefs =
     Inr (Object_assign (Object_assign [] (get_prop (getConf rcp_config) ''defaultPrefs''))
            (Some (JObj newPrefs)))
   \<and> (getPreferences rcp_config (Some (Text s)) newPrefs = Inl SyntaxError
        \<longleftrightarrow> JSON_parse s = Inl SyntaxError)
   \<and> ((\<exists>prefs. getPreferences rcp_config (Some (Text s)) newPrefs = Inr prefs)
        \<longleftrightarrow> (\<exists>v. JSON_parse s = Inr v))
   \<and> (\<exists>prefs. getPreferences rcp_config (Some (Stringified v)) newPrefs = Inr prefs)"
  by (auto simp add: getPreferences_def JSON_parse_null or_empty_def Object_assign_def Let_def
      split: sum.splits)

subsection \<open>Override, persisted settings, defaults\<close>



subsection \<open>The namespaces of the request\<close>

text \<open>
  C4. When \<open>prefs.namespace\<close> is \<open>noncontent\<close>, the request restricts the namespaces to a
  list without duplicates whose elements are exactly the values of \<open>wgNamespaceIds\<close> that
  are not in \<open>wgContentNamespaces\<close>, whatever the two hold (the values of \<open>wgNamespaceIds\<close>
  may repeat).
\<close>

theorem noncontent_namespaces:
  assumes "get_prop prefs ''namespace'' = Some (JStr (ascii ''noncontent''))"
  shows "\<exists>ns. map_of (fst (getUnpatrolled cfg now prefs))
                 (prefix (getApiListType (get_prop prefs ''origin'')) @ ascii ''namespace'') =
               Some (Some (numbers ns))
            \<and> set ns = set (map snd (wgNamespaceIds cfg)) - set (wgContentNamespaces cfg)
            \<and> distinct ns"
proof -
  let ?ns = "filter (\<lambda>ns. ns \<notin> set (wgContentNamespaces cfg))
               (Set_values (map snd (wgNamespaceIds cfg)))"
  have "map_of (fst (getUnpatrolled cfg now prefs))
          (prefix (getApiListType (get_prop prefs ''origin'')) @ ascii ''namespace'') =
        Some (Some (numbers ?ns))"
    using assms by (simp add: getApiListType_def getUnpatrolled_def Let_def ascii_append)
  moreover have "set ?ns = set (map snd (wgNamespaceIds cfg)) - set (wgContentNamespaces cfg)"
    by (auto simp: set_Set_values)
  moreover have "distinct ?ns"
    by (simp add: distinct_Set_values)
  ultimately show ?thesis by blast
qed

theorem noncontent_namespaces_witness:
  "get_prop [(ascii ''origin'', JStr (ascii ''watchlist'')),
             (ascii ''namespace'', JStr (ascii ''noncontent''))] ''namespace'' =
     Some (JStr (ascii ''noncontent''))
   \<and> (\<exists>ns. map_of (fst (getUnpatrolled
                \<lparr>wgContentNamespaces = [0],
                 wgNamespaceIds = [(ascii ''main'', 0), (ascii ''talk'', 1), (ascii ''project'', 4),
                                   (ascii ''wp'', 4), (ascii ''image'', 6), (ascii ''file'', 6)],
                 skin = ascii ''vector''\<rparr>
                0 [(ascii ''origin'', JStr (ascii ''watchlist'')),
                   (ascii ''namespace'', JStr (ascii ''noncontent''))]))
              (ascii ''wlnamespace'') = Some (Some (numbers ns))
          \<and> set ns = {1, 4, 6} \<and> distinct ns)"
proof -
  let ?p = "[(ascii ''origin'', JStr (ascii ''watchlist'')),
             (ascii ''namespace'', JStr (ascii ''noncontent''))]"
  let ?c = "\<lparr>wgContentNamespaces = [0],
             wgNamespaceIds = [(ascii ''main'', 0), (ascii ''talk'', 1), (ascii ''project'', 4),
                               (ascii ''wp'', 4), (ascii ''image'', 6), (ascii ''file'', 6)],
             skin = ascii ''vector''\<rparr>"
  have h: "get_prop ?p ''namespace'' = Some (JStr (ascii ''noncontent''))"
    by (simp add: get_prop_def)
  from noncontent_namespaces [OF h, of ?c 0] obtain ns where
    "map_of (fst (getUnpatrolled ?c 0 ?p))
       (prefix (getApiListType (get_prop ?p ''origin'')) @ ascii ''namespace'') =
     Some (Some (numbers ns))"
    "set ns = set (map snd (wgNamespaceIds ?c)) - set (wgContentNamespaces ?c)" "distinct ns"
    by blast
  then have "map_of (fst (getUnpatrolled ?c 0 ?p)) (ascii ''wlnamespace'') = Some (Some (numbers ns))
      \<and> set ns = {1, 4, 6} \<and> distinct ns"
    by (auto simp add: get_prop_def getApiListType_def ascii_append)
  with h show ?thesis by blast
qed

subsection \<open>An empty answer\<close>

text \<open>
  C5. When the list of changes in the answer is empty, the callback ends normally and adds
  one entry, the placeholder with the message \<open>userjs-rcp-portlet-empty\<close>, which is no entry
  of a change; when the request was not the initial one, the entries of the cycle before
  were removed first, so the placeholder is then the only entry.
\<close>

theorem empty_answer_placeholder:
  assumes "map_of query (list (getApiListType (get_prop (fetch_prefs f) ''origin''))) = Some []"
  shows "\<exists>st'. fetch_done rcp_config cfg f query st = Done st'
           \<and> entries st' = (if fetch_initial f then entries st else []) @ [fakePortletLink]
           \<and> link_id fakePortletLink = Some (ascii ''n-userjs-rcp-emptylist'')
           \<and> link_label fakePortletLink = Message ''userjs-rcp-portlet-empty''
           \<and> ascii ''userjs-rcp-item'' \<notin> set (classes fakePortletLink)"
  using assms by (simp add: fetch_done_def Let_def fakePortletLink_def)

theorem empty_answer_placeholder_witness:
  "map_of [(ascii ''recentchanges'', [])]
     (list (getApiListType (get_prop
        (fetch_prefs \<lparr>fetch_initial = False, fetch_prefs = [], fetch_request = []\<rparr>)
        ''origin''))) = Some []
   \<and> (\<exists>st'. fetch_done JNull example_config
               \<lparr>fetch_initial = False, fetch_prefs = [], fetch_request = []\<rparr>
               [(ascii ''recentchanges'', [])]
               ((initial_state None)\<lparr>entries := [fakePortletLink, fakePortletLink]\<rparr>) = Done st'
           \<and> entries st' = [fakePortletLink])"
proof -
  let ?f = "\<lparr>fetch_initial = False, fetch_prefs = [], fetch_request = []\<rparr>"
  have h: "map_of [(ascii ''recentchanges'', [])]
             (list (getApiListType (get_prop (fetch_prefs ?f) ''origin''))) = Some []"
    by (simp add: getApiListType_def get_prop_def)
  from empty_answer_placeholder [OF h, of JNull example_config
      "(initial_state None)\<lparr>entries := [fakePortletLink, fakePortletLink]\<rparr>"]
  obtain st' where
    "fetch_done JNull example_config ?f [(ascii ''recentchanges'', [])]
       ((initial_state None)\<lparr>entries := [fakePortletLink, fakePortletLink]\<rparr>) = Done st'"
    "entries st' = [fakePortletLink]"
    by auto
  with h show ?thesis by blast
qed

subsection \<open>The list type of the request\<close>

text \<open>
  C6. For every value of \<open>prefs.origin\<close>, \<open>getApiListType\<close> gives the list \<open>watchlist\<close> and
  the prefix \<open>wl\<close> exactly when the origin is the string \<open>watchlist\<close>, and the list
  \<open>recentchanges\<close> and the prefix \<open>rc\<close> for every other value, \<open>undefined\<close> included; the
  request that \<open>getUnpatrolled\<close> builds names that list and carries the prefix in its keys.
\<close>

theorem origin_selects_list:
  "(list (getApiListType origin) = ascii ''watchlist'' \<longleftrightarrow> origin = Some (JStr (ascii ''watchlist'')))
   \<and> (prefix (getApiListType origin) = ascii ''wl'' \<longleftrightarrow> origin = Some (JStr (ascii ''watchlist'')))
   \<and> (list (getApiListType origin) = ascii ''recentchanges'' \<longleftrightarrow> origin \<noteq> Some (JStr (ascii ''watchlist'')))
   \<and> (prefix (getApiListType origin) = ascii ''rc'' \<longleftrightarrow> origin \<noteq> Some (JStr (ascii ''watchlist'')))
   \<and> map_of (fst (getUnpatrolled cfg now prefs)) (ascii ''list'') =
        Some (Some (JStr (list (getApiListType (get_prop prefs ''origin'')))))
   \<and> map_of (fst (getUnpatrolled cfg now prefs))
        (prefix (getApiListType (get_prop prefs ''origin'')) @ ascii ''show'') =
        Some (Some (JStr (ascii ''!patrolled'')))"
  by (simp add: getApiListType_def getUnpatrolled_def Let_def ascii_append)

subsection \<open>One timer\<close>



subsection \<open>Becoming visible\<close>



subsection \<open>A failed request\<close>

text \<open>
  C9. When a request fails, the callback writes one line to the console and nothing else:
  the entries of the portlet, the timers, \<open>intervalId\<close> and the messages shown to the user
  are what they were, and a timer that was active still polls when it fires next.
\<close>

theorem failed_fetch_only_logged:
  "entries (step rcp_config cfg hidden now (FetchFail n err) st) = entries st
   \<and> timers (step rcp_config cfg hidden now (FetchFail n err) st) = timers st
   \<and> intervalId (step rcp_config cfg hidden now (FetchFail n err) st) = intervalId st
   \<and> notifications (step rcp_config cfg hidden now (FetchFail n err) st) = notifications st
   \<and> console (step rcp_config cfg hidden now (FetchFail n err) st) =
        (if n < length (fetches st)
         then console st @ [ascii ''Error from Gadget-rcp.js: '' @ err] else console st)
   \<and> step rcp_config cfg hidden' now' (TimerFires i)
          (step rcp_config cfg hidden now (FetchFail n err) st) =
        (if i \<in> fst ` set (timers st)
         then state_of (populateList rcp_config cfg False hidden' now'
                          (step rcp_config cfg hidden now (FetchFail n err) st))
         else step rcp_config cfg hidden now (FetchFail n err) st)"
  by (simp add: fetch_fail_def)

subsection \<open>The checkbox of the dialog\<close>

text \<open>
  C10. Whatever happens in the dialog, its patch holds \<open>newOnly = true\<close> if the checkbox was
  ever reported as selected, and no value for \<open>newOnly\<close> otherwise: never \<open>false\<close>. So when the
  persisted settings have \<open>newOnly = true\<close>, the action \<open>save\<close> writes settings with
  \<open>newOnly = true\<close> again, whatever the events of the dialog were. The action \<open>reset\<close> writes
  the empty object, after which the preferences are the defaults, whose \<open>newOnly\<close> is \<open>false\<close>
  unless \<^verbatim>\<open>rcp-config.json\<close> sets other defaults.
\<close>

theorem newOnly_only_set:
  assumes "JSON_parse_option (userjs_rcp st) = Inr parsed"
    and "get_prop (own_props (or_empty parsed)) ''newOnly'' = Some (JBool True)"
  shows "get_prop (patch_after evs) ''newOnly'' =
           (if ChangeNewOnly True \<in> set evs then Some (JBool True) else None)
     \<and> (\<exists>newoptions.
           getActionProcess rcp_config (ascii ''save'') (patch_after evs) st =
             Done (st\<lparr>userjs_rcp := Some (Stringified (JObj newoptions))\<rparr>)
         \<and> get_prop newoptions ''newOnly'' = Some (JBool True))
     \<and> getActionProcess rcp_config (ascii ''reset'') (patch_after evs) st =
         Done (st\<lparr>userjs_rcp := Some (Stringified (JObj []))\<rparr>)
     \<and> (\<exists>prefs. getPreferences rcp_config (Some (Stringified (JObj []))) [] = Inr prefs
           \<and> get_prop prefs ''newOnly'' =
               get_prop (props_of (get_prop (getConf rcp_config) ''defaultPrefs'')) ''newOnly''
           \<and> (get_prop (own_props (or_empty rcp_config)) ''defaultPrefs'' = None
                \<longrightarrow> get_prop prefs ''newOnly'' = Some (JBool False)))"
proof -
  let ?d = "get_prop (getConf rcp_config) ''defaultPrefs''"
  let ?np = "patch_after evs"
  let ?o = "Object_assign (Object_assign (Object_assign [] ?d) (Some (or_empty parsed)))
              (Some (JObj ?np))"
  have 1: "get_prop ?np ''newOnly'' =
             (if ChangeNewOnly True \<in> set evs then Some (JBool True) else None)"
    by (simp add: patch_after_def fold_handler_newOnly)
  have g: "getPreferences rcp_config (userjs_rcp st) ?np = Inr ?o"
    using assms(1) by (simp add: getPreferences_def Let_def)
  have "get_prop ?o ''newOnly'' =
          first_defined (get_prop ?np ''newOnly'')
            (first_defined (get_prop (own_props (or_empty parsed)) ''newOnly'')
               (get_prop (props_of ?d) ''newOnly''))"
    by (simp add: get_prop_assign props_of_def)
  with 1 assms(2) have n: "get_prop ?o ''newOnly'' = Some (JBool True)"
    by (simp add: first_defined_def)
  from g have 2: "getActionProcess rcp_config (ascii ''save'') ?np st =
                    Done (st\<lparr>userjs_rcp := Some (Stringified (JObj ?o))\<rparr>)"
    by (simp add: getActionProcess_def setPreferences_def)
  from g have 3: "getActionProcess rcp_config (ascii ''reset'') ?np st =
                    Done (st\<lparr>userjs_rcp := Some (Stringified (JObj []))\<rparr>)"
    by (simp add: getActionProcess_def setPreferences_def)
  let ?p = "Object_assign (Object_assign [] ?d) (Some (JObj []))"
  have 4: "getPreferences rcp_config (Some (Stringified (JObj []))) [] = Inr ?p"
    by (rule getPreferences_Stringified_empty)
  have 5: "get_prop ?p ''newOnly'' = get_prop (props_of ?d) ''newOnly''"
    by (simp add: get_prop_assign)
  have 6: "get_prop ?p ''newOnly'' = Some (JBool False)"
    if "get_prop (own_props (or_empty rcp_config)) ''defaultPrefs'' = None"
  proof -
    have "get_prop (props_of ?d) ''newOnly'' = Some (JBool False)"
      unfolding builtin_defaultPrefs [OF that] by (simp add: props_of_def get_prop_def)
    with 5 show ?thesis by (simp only:)
  qed
  from 2 n have A: "\<exists>newoptions.
           getActionProcess rcp_config (ascii ''save'') ?np st =
             Done (st\<lparr>userjs_rcp := Some (Stringified (JObj newoptions))\<rparr>)
         \<and> get_prop newoptions ''newOnly'' = Some (JBool True)"
    by (intro exI [of _ ?o] conjI)
  from 4 5 6 have B: "\<exists>prefs. getPreferences rcp_config (Some (Stringified (JObj []))) [] = Inr prefs
           \<and> get_prop prefs ''newOnly'' = get_prop (props_of ?d) ''newOnly''
           \<and> (get_prop (own_props (or_empty rcp_config)) ''defaultPrefs'' = None
                \<longrightarrow> get_prop prefs ''newOnly'' = Some (JBool False))"
    by (intro exI [of _ ?p] conjI impI)
  from 1 A 3 B show ?thesis by (intro conjI)
qed

theorem newOnly_only_set_witness:
  "JSON_parse_option
     (userjs_rcp (initial_state (Some (Text (ascii ''{'' @ quoted ''newOnly'' @ ascii '':true}''))))) =
     Inr (JObj [(ascii ''newOnly'', JBool True)])
   \<and> get_prop (own_props (or_empty (JObj [(ascii ''newOnly'', JBool True)]))) ''newOnly'' =
       Some (JBool True)
   \<and> get_prop (patch_after [ChangeNewOnly False, ChangeQuantity (JStr (ascii ''5''))]) ''newOnly'' = None
   \<and> (\<exists>newoptions.
         getActionProcess JNull (ascii ''save'')
           (patch_after [ChangeNewOnly False, ChangeQuantity (JStr (ascii ''5''))])
           (initial_state (Some (Text (ascii ''{'' @ quoted ''newOnly'' @ ascii '':true}'')))) =
         Done ((initial_state (Some (Text (ascii ''{'' @ quoted ''newOnly'' @ ascii '':true}''))))
                 \<lparr>userjs_rcp := Some (Stringified (JObj newoptions))\<rparr>)
       \<and> get_prop newoptions ''newOnly'' = Some (JBool True))
   \<and> (\<exists>prefs. getPreferences JNull (Some (Stringified (JObj []))) [] = Inr prefs
         \<and> get_prop prefs ''newOnly'' = Some (JBool False))"
proof -
  let ?st = "initial_state (Some (Text (ascii ''{'' @ quoted ''newOnly'' @ ascii '':true}'')))"
  let ?evs = "[ChangeNewOnly False, ChangeQuantity (JStr (ascii ''5''))]"
  have h1: "JSON_parse_option (userjs_rcp ?st) = Inr (JObj [(ascii ''newOnly'', JBool True)])"
    by (simp add: initial_state_def json_eval)
  have h2: "get_prop (own_props (or_empty (JObj [(ascii ''newOnly'', JBool True)]))) ''newOnly'' =
              Some (JBool True)"
    by (simp add: or_empty_def get_prop_def)
  have d: "get_prop (own_props (or_empty JNull)) ''defaultPrefs'' = None"
    by (simp add: or_empty_def)
  have e: "ChangeNewOnly True \<notin> set ?evs" by simp
  from newOnly_only_set [OF h1 h2, of ?evs JNull] e d
  have "get_prop (patch_after ?evs) ''newOnly'' = None"
    and "\<exists>newoptions.
           getActionProcess JNull (ascii ''save'') (patch_after ?evs) ?st =
             Done (?st\<lparr>userjs_rcp := Some (Stringified (JObj newoptions))\<rparr>)
         \<and> get_prop newoptions ''newOnly'' = Some (JBool True)"
    and "\<exists>prefs. getPreferences JNull (Some (Stringified (JObj []))) [] = Inr prefs
           \<and> get_prop prefs ''newOnly'' = Some (JBool False)"
    by (simp_all only: if_False) blast+
  with h1 h2 show ?thesis by (simp only: simp_thms)
qed

end
